theory Spec2Isabelle
  imports Complex_Main
begin

section \<open>Python values\<close>

text \<open>
  A Python \<open>str\<close> is a sequence of Unicode code points: \<open>len\<close> counts code points and
  \<open>rfind\<close> and slicing index them. It is modelled as a list of code points, so that
  the non-ASCII characters of the bot's messages count as one character each.
  \<open>ascii\<close> embeds an ASCII literal.
\<close>

type_synonym pystr = "nat list"

definition ascii :: "string \<Rightarrow> pystr" where
  "ascii cs = map of_char cs"

definition newline :: nat where
  "newline = 10"

text \<open>
  An exception is its class, as far as the code tells classes apart, with the message
  that \<open>str\<close> of it prints.

  Python \<open>int\<close> is unbounded: \<open>int\<close>. A Python \<open>float\<close> is modelled by the rational it
  denotes, with exact arithmetic: the rounding of a double to 53 bits and its finite
  range (\<open>inf\<close>, \<open>nan\<close>, \<open>OverflowError\<close> beyond about \<open>1.8e308\<close>) are outside the model.
  A \<open>datetime\<close> is a count of microseconds (its resolution) on the local clock, and the
  clock reading \<open>datetime.now()\<close> is an argument of the function that reads it.
\<close>

datatype error =
    ZeroDivisionError pystr
  | OverflowError pystr
  | KeyError pystr
  | ClientConnectorError pystr
  | Exception pystr

text \<open>\<open>a / b\<close> on numbers: raises on a zero divisor.\<close>

definition py_truediv :: "rat \<Rightarrow> rat \<Rightarrow> error + rat" where
  "py_truediv a b =
     (if b = 0 then Inl (ZeroDivisionError (ascii ''division by zero'')) else Inr (a / b))"

text \<open>\<open>round(x, ndigits)\<close>: to the nearest multiple of \<open>10 ** -ndigits\<close>, ties to even.\<close>

definition round_half_even :: "rat \<Rightarrow> int" where
  "round_half_even x =
     (let f = \<lfloor>x\<rfloor>; d = x - of_int f
      in if d < 1 / 2 then f
         else if 1 / 2 < d then f + 1
         else if even f then f else f + 1)"

definition py_round :: "rat \<Rightarrow> nat \<Rightarrow> rat" where
  "py_round x ndigits = of_int (round_half_even (x * 10 ^ ndigits)) / 10 ^ ndigits"

text \<open>\<open>min(a, b)\<close> returns \<open>b\<close> only when \<open>b < a\<close>.\<close>

definition py_min :: "rat \<Rightarrow> rat \<Rightarrow> rat" where
  "py_min a b = (if b < a then b else a)"

text \<open>\<open>int(x)\<close> of a float truncates towards zero.\<close>

definition py_int :: "rat \<Rightarrow> int" where
  "py_int x = (if 0 \<le> x then \<lfloor>x\<rfloor> else \<lceil>x\<rceil>)"

text \<open>\<open>str(n)\<close> of an int: decimal digits, a minus sign when negative.\<close>

fun str_nat :: "nat \<Rightarrow> pystr" where
  "str_nat n = (if n < 10 then [48 + n] else str_nat (n div 10) @ [48 + n mod 10])"

definition str_int :: "int \<Rightarrow> pystr" where
  "str_int i = (if i < 0 then 45 # str_nat (nat (- i)) else str_nat (nat i))"

text \<open>\<open>"%02d" % n\<close>: at least two digits, padded with a zero.\<close>

definition fmt_02d :: "int \<Rightarrow> pystr" where
  "fmt_02d i = (if 0 \<le> i \<and> i < 10 then 48 # str_int i else str_int i)"

subsection \<open>\<open>datetime.timedelta\<close>\<close>

text \<open>
  \<open>timedelta(seconds=n)\<close> for an int \<open>n\<close> normalises to days and seconds
  (\<open>divmod(n, 86400)\<close>, floor division) and raises \<open>OverflowError\<close> when the number of
  days exceeds \<open>999999999\<close> in magnitude. \<open>str\<close> of it is \<open>H:MM:SS\<close>, preceded by
  \<open>D day, \<close> or \<open>D days, \<close> when the days are not zero.
\<close>

record timedelta =
  days :: int
  seconds :: int

definition timedelta_of_seconds :: "int \<Rightarrow> error + timedelta" where
  "timedelta_of_seconds n =
     (let d = n div 86400; s = n mod 86400
      in if 999999999 < \<bar>d\<bar>
         then Inl (OverflowError
                (ascii ''days='' @ str_int d @ ascii ''; must have magnitude <= 999999999''))
         else Inr \<lparr>days = d, seconds = s\<rparr>)"

definition str_timedelta :: "timedelta \<Rightarrow> pystr" where
  "str_timedelta td =
     (let mm = seconds td div 60; ss = seconds td mod 60;
          hh = mm div 60; mm' = mm mod 60;
          s = str_int hh @ ascii '':'' @ fmt_02d mm' @ ascii '':'' @ fmt_02d ss
      in if days td \<noteq> 0
         then str_int (days td) @ ascii '' day'' @
              (if \<bar>days td\<bar> \<noteq> 1 then ascii ''s'' else []) @ ascii '', '' @ s
         else s)"

section \<open>The sync monitor (\<open>services/sync_service.py\<close>)\<close>

text \<open>
  \<open>SyncMonitor.__init__\<close>: the instance attributes. \<open>last_check_time\<close> is \<open>None\<close> until
  the first computation.
\<close>

record SyncMonitor =
  last_height :: int
  last_check_time :: "int option"
  sync_speed :: rat

definition SyncMonitor_init :: SyncMonitor where
  "SyncMonitor_init = \<lparr>last_height = 0, last_check_time = None, sync_speed = 0\<rparr>"

text \<open>
  The local node's status document, as far as the monitor reads it: the outcome of
  \<open>int(node_status['result']['sync_info']['latest_block_height'])\<close> and of
  \<open>node_status['result']['sync_info']['catching_up']\<close>, each a value or the exception the
  expression raises on a document that lacks the field.
\<close>

record node_status =
  latest_block_height :: "error + int"
  catching_up :: "error + bool"

text \<open>The dictionary \<open>calculate_sync_metrics\<close> returns, one field per key.\<close>

record sync_metrics =
  m_current_height :: int
  m_network_height :: int
  m_blocks_behind :: int
  m_sync_percent :: rat
  m_sync_speed :: rat
  m_time_remaining :: "pystr option"
  m_catching_up :: bool

text \<open>
  Lines 82--90, ``calculate sync progress'': the pair \<open>(blocks_behind, sync_percent)\<close>.
\<close>

definition sync_progress :: "int \<Rightarrow> int \<Rightarrow> error + (int \<times> rat)" where
  "sync_progress current_height network_height =
     (let blocks_behind = network_height - current_height
      in if 0 < blocks_behind then
           (case (if 0 < network_height
                  then (case py_truediv (of_int current_height) (of_int network_height) of
                          Inl e \<Rightarrow> Inl e
                        | Inr q \<Rightarrow> Inr (q * 100))
                  else Inr 0) of
              Inl e \<Rightarrow> Inl e
            | Inr sync_percent \<Rightarrow> Inr (blocks_behind, py_min 99.99 (py_round sync_percent 2)))
         else Inr (0, 100))"

text \<open>
  \<open>(now - self.last_check_time).total_seconds()\<close>: the difference in microseconds
  divided by \<open>10 ** 6\<close>.
\<close>

definition total_seconds :: "int \<Rightarrow> rat" where
  "total_seconds us = of_int us / 10 ^ 6"

text \<open>
  Lines 93--97, ``calculate sync speed'': the new value of \<open>self.sync_speed\<close>.
\<close>

definition update_sync_speed :: "SyncMonitor \<Rightarrow> int \<Rightarrow> int \<Rightarrow> error + rat" where
  "update_sync_speed self now current_height =
     (if 0 < last_height self then
        (case last_check_time self of
           None \<Rightarrow> Inr (sync_speed self)
         | Some t \<Rightarrow>
             (let time_diff = total_seconds (now - t)
              in if 0 < time_diff
                 then (let height_diff = current_height - last_height self
                       in py_truediv (of_int height_diff) time_diff)
                 else Inr (sync_speed self)))
      else Inr (sync_speed self))"

text \<open>
  Lines 104--107, ``calculate estimated time remaining''.
\<close>

definition estimate_time_remaining :: "rat \<Rightarrow> int \<Rightarrow> error + pystr option" where
  "estimate_time_remaining speed blocks_behind =
     (if 0 < speed \<and> 0 < blocks_behind then
        (case py_truediv (of_int blocks_behind) speed of
           Inl e \<Rightarrow> Inl e
         | Inr seconds_remaining \<Rightarrow>
             (case timedelta_of_seconds (py_int seconds_remaining) of
                Inl e \<Rightarrow> Inl e
              | Inr td \<Rightarrow> Inr (Some (str_timedelta td))))
      else Inr None)"

text \<open>
  \<open>SyncMonitor.calculate_sync_metrics\<close>. The method mutates \<open>self\<close>: the model returns
  the monitor as the call leaves it, also when the call raises. An exception before
  line 97 leaves the monitor as it was, one after line 101 leaves it updated.
\<close>

definition calculate_sync_metrics ::
  "SyncMonitor \<Rightarrow> int \<Rightarrow> int \<Rightarrow> int \<Rightarrow> node_status \<Rightarrow> (error + sync_metrics) \<times> SyncMonitor" where
  "calculate_sync_metrics self now current_height network_height status =
     (case sync_progress current_height network_height of
        Inl e \<Rightarrow> (Inl e, self)
      | Inr (blocks_behind, sync_percent) \<Rightarrow>
          (case update_sync_speed self now current_height of
             Inl e \<Rightarrow> (Inl e, self)
           | Inr speed \<Rightarrow>
               (let self' = self\<lparr>sync_speed := speed\<rparr>
                              \<lparr>last_height := current_height, last_check_time := Some now\<rparr>
                in case estimate_time_remaining speed blocks_behind of
                     Inl e \<Rightarrow> (Inl e, self')
                   | Inr time_remaining \<Rightarrow>
                       (case catching_up status of
                          Inl e \<Rightarrow> (Inl e, self')
                        | Inr cu \<Rightarrow>
                            (Inr \<lparr>m_current_height = current_height,
                                  m_network_height = network_height,
                                  m_blocks_behind = blocks_behind,
                                  m_sync_percent = sync_percent,
                                  m_sync_speed = speed,
                                  m_time_remaining = time_remaining,
                                  m_catching_up = cu\<rparr>, self')))))"

section \<open>Message splitting (\<open>utils/helpers.py\<close>)\<close>

text \<open>
  \<open>s.rfind(c, start, end)\<close> for a one-character \<open>c\<close> and non-negative bounds: the highest
  index in \<open>start..<min(end, len(s))\<close> that holds \<open>c\<close>, or \<open>-1\<close> when there is none.
\<close>

definition rfind :: "pystr \<Rightarrow> nat \<Rightarrow> nat \<Rightarrow> nat \<Rightarrow> int" where
  "rfind s c start end' =
     (let found = filter (\<lambda>i. s ! i = c) [start ..< min end' (length s)]
      in if found = [] then - 1 else int (last found))"

text \<open>
  \<open>split_message\<close>. The \<open>while\<close> loop need not end, so it is a partial function: \<open>None\<close> is
  a loop that never returns. \<open>max_length\<close> is a natural number; every caller passes the
  default, 4000. After the test for \<open>-1\<close> the index is not negative, and the slices
  \<open>message[:split_index]\<close> and \<open>message[split_index:]\<close> are \<open>take\<close> and \<open>drop\<close>.
\<close>

partial_function (option) split_loop :: "pystr list \<Rightarrow> pystr \<Rightarrow> nat \<Rightarrow> pystr list option" where
  "split_loop parts message max_length =
     (if max_length < length message then
        (let split_index = rfind message newline 0 max_length;
             split_index = (if split_index = - 1 then int max_length else split_index)
         in split_loop (parts @ [take (nat split_index) message])
              (drop (nat split_index) message) max_length)
      else Some (parts @ [message]))"

declare split_loop.simps [code]

definition split_message :: "pystr \<Rightarrow> nat \<Rightarrow> pystr list option" where
  "split_message message max_length = split_loop [] message max_length"

text \<open>
  The value of \<open>split_index\<close> after lines 39--41 of one pass through the loop, where a
  missing newline (\<open>-1\<close>) has been replaced by \<open>max_length\<close>.
\<close>

definition split_index :: "pystr \<Rightarrow> nat \<Rightarrow> nat" where
  "split_index m n = nat (let i = rfind m newline 0 n in if i = - 1 then int n else i)"

text \<open>
  The splitting the specification describes, in its words: \<open>split_point n m k\<close> says that
  \<open>k\<close> is the index of the last newline among the first \<open>n\<close> characters of \<open>m\<close>, or \<open>n\<close>
  when there is no newline among them; \<open>split_at_points n m ps\<close> says that \<open>ps\<close> cuts \<open>m\<close> at
  such points, repeated until the remainder is at most \<open>n\<close> long.
\<close>

definition split_point :: "nat \<Rightarrow> pystr \<Rightarrow> nat \<Rightarrow> bool" where
  "split_point n m k =
     (if newline \<in> set (take n m)
      then k < n \<and> k < length m \<and> m ! k = newline \<and> newline \<notin> set (drop (Suc k) (take n m))
      else k = n)"

fun split_at_points :: "nat \<Rightarrow> pystr \<Rightarrow> pystr list \<Rightarrow> bool" where
  "split_at_points n m [] = False"
| "split_at_points n m [p] = (p = m \<and> length m \<le> n)"
| "split_at_points n m (p # q # ps) =
     (n < length m \<and> split_point n m (length p) \<and> p = take (length p) m \<and>
      split_at_points n (drop (length p) m) (q # ps))"

section \<open>The sync monitor's queries (\<open>services/sync_service.py\<close>)\<close>

text \<open>
  The three URLs the monitor requests: the two reference endpoints of the configuration
  and the local node's \<open>http://localhost:{SERVER_PORT}/status\<close>.
\<close>

datatype endpoint = RPC_ENDPOINT_1 | RPC_ENDPOINT_2 | NODE_STATUS_URL

text \<open>
  What one \<open>GET\<close> gives: an exception while connecting or reading
  (\<open>ClientConnectorError\<close> when the endpoint is unreachable), or a response with its
  status and the outcome of \<open>await response.json()\<close>, a status document or the exception
  of a body that is not JSON.
\<close>

datatype http_reply = Raises error | Response int "error + node_status"

text \<open>
  The world outside the bot, as one run of a handler or job sees it, with what the run
  does to it. Read: the reply of each endpoint, the clock, the outcome of
  \<open>system_service.check_services_status()\<close> (a dictionary, in insertion order) and of
  \<open>system_service.get_system_info()['disk_percent']\<close>, and whether the \<open>n\<close>-th call of
  \<open>bot.send_message\<close> raises. Written: the requests issued, the messages delivered and the
  number of calls of \<open>send_message\<close>.
\<close>

record pyfloat =
  float_value :: rat
  float_repr :: pystr

record world =
  http :: "endpoint \<Rightarrow> http_reply"
  clock :: int
  services_status :: "error + (pystr \<times> pystr) list"
  disk_percent :: "error + pyfloat"
  send_raises :: "nat \<Rightarrow> error option"
  requests :: "endpoint list"
  sent :: "(int \<times> pystr) list"
  send_calls :: nat

definition http_get :: "world \<Rightarrow> endpoint \<Rightarrow> http_reply \<times> world" where
  "http_get w url = (http w url, w\<lparr>requests := requests w @ [url]\<rparr>)"

text \<open>
  One of the two \<open>try\<close> blocks of \<open>get_network_height\<close> (lines 28--35 and 37--44, which
  differ in the endpoint only): \<open>Some\<close> height when the block returns, \<open>None\<close> when it
  falls through, after a status other than 200 or after an exception, which the block
  catches and logs. The log is not modelled.
\<close>

definition rpc_height :: "world \<Rightarrow> endpoint \<Rightarrow> int option \<times> world" where
  "rpc_height w url =
     (case http_get w url of
        (Raises e, w') \<Rightarrow> (None, w')
      | (Response status body, w') \<Rightarrow>
          if status = 200 then
            (case body of
               Inl e \<Rightarrow> (None, w')
             | Inr data \<Rightarrow>
                 (case latest_block_height data of
                    Inl e \<Rightarrow> (None, w')
                  | Inr h \<Rightarrow> (Some h, w')))
          else (None, w'))"

text \<open>
  The exception of line 46. The specification calls it \<open>NoReferenceAvailable\<close>; in the code
  it is a plain \<open>Exception\<close> with this message.
\<close>

definition NoReferenceAvailable :: error where
  "NoReferenceAvailable = Exception (ascii ''Failed to get network height from any RPC endpoint'')"

definition get_network_height :: "world \<Rightarrow> (error + int) \<times> world" where
  "get_network_height w =
     (case rpc_height w RPC_ENDPOINT_1 of
        (Some h, w1) \<Rightarrow> (Inr h, w1)
      | (None, w1) \<Rightarrow>
          (case rpc_height w1 RPC_ENDPOINT_2 of
             (Some h, w2) \<Rightarrow> (Inr h, w2)
           | (None, w2) \<Rightarrow> (Inl NoReferenceAvailable, w2)))"

definition get_node_status :: "world \<Rightarrow> (error + node_status) \<times> world" where
  "get_node_status w =
     (case http_get w NODE_STATUS_URL of
        (Raises e, w') \<Rightarrow> (Inl e, w')
      | (Response status body, w') \<Rightarrow>
          if status \<noteq> 200
          then (Inl (Exception (ascii ''Failed to get node status: HTTP '' @ str_int status)), w')
          else (body, w'))"

text \<open>
  \<open>get_sync_status\<close>: the metrics and \<open>is_healthy\<close>, or the exception, which the \<open>except\<close>
  clause logs and raises again; with the monitor and the world as the call leaves them.
\<close>

definition get_sync_status ::
  "SyncMonitor \<Rightarrow> world \<Rightarrow> (error + sync_metrics \<times> bool) \<times> SyncMonitor \<times> world" where
  "get_sync_status self w =
     (case get_network_height w of
        (Inl e, w1) \<Rightarrow> (Inl e, self, w1)
      | (Inr network_height, w1) \<Rightarrow>
          (case get_node_status w1 of
             (Inl e, w2) \<Rightarrow> (Inl e, self, w2)
           | (Inr status, w2) \<Rightarrow>
               (case latest_block_height status of
                  Inl e \<Rightarrow> (Inl e, self, w2)
                | Inr current_height \<Rightarrow>
                    (case calculate_sync_metrics self (clock w2) current_height network_height
                            status of
                       (Inl e, self') \<Rightarrow> (Inl e, self', w2)
                     | (Inr metrics, self') \<Rightarrow>
                         (let is_healthy = (m_blocks_behind metrics < 100 \<and>
                                            \<not> m_catching_up metrics)
                          in (Inr (metrics, is_healthy), self', w2))))))"

section \<open>Activation and deactivation (\<open>services/monitoring_service.py\<close>)\<close>

text \<open>
  \<open>context.chat_data\<close>, the dictionary of one chat. The code stores booleans under the
  key \<open>'monitoring'\<close> and nothing else; \<open>chat_data.get('monitoring', False)\<close> is
  \<open>monitoring_flag\<close>.
\<close>

type_synonym chat_data = "pystr \<rightharpoonup> bool"

definition monitoring_flag :: "chat_data \<Rightarrow> bool" where
  "monitoring_flag chat_data =
     (case chat_data (ascii ''monitoring'') of None \<Rightarrow> False | Some v \<Rightarrow> v)"

text \<open>
  The job queue of the \<open>telegram.ext\<close> library, as far as the service uses it: the jobs
  scheduled and not removed, in the order of their scheduling. \<open>run_repeating\<close> adds a
  job, \<open>get_jobs_by_name\<close> gives the jobs of a name, and \<open>job.schedule_removal()\<close> takes
  the job out of the queue.
\<close>

datatype callback = Send_monitoring_update

record job =
  job_callback :: callback
  job_interval :: int
  job_first :: int
  job_chat_id :: int
  job_name :: pystr

type_synonym job_queue = "job list"

definition run_repeating :: "job_queue \<Rightarrow> callback \<Rightarrow> int \<Rightarrow> int \<Rightarrow> int \<Rightarrow> pystr \<Rightarrow> job_queue" where
  "run_repeating q cb interval first chat_id name =
     q @ [\<lparr>job_callback = cb, job_interval = interval, job_first = first,
           job_chat_id = chat_id, job_name = name\<rparr>]"

definition get_jobs_by_name :: "job_queue \<Rightarrow> pystr \<Rightarrow> job list" where
  "get_jobs_by_name q name = filter (\<lambda>j. job_name j = name) q"

definition schedule_removal :: "job \<Rightarrow> job_queue \<Rightarrow> job_queue" where
  "schedule_removal j q = remove1 j q"

text \<open>The job name \<open>f"monitor_{chat_id}"\<close>.\<close>

definition monitor_name :: "int \<Rightarrow> pystr" where
  "monitor_name chat_id = ascii ''monitor_'' @ str_int chat_id"

text \<open>
  \<open>activate_monitoring\<close> and \<open>deactivate_monitoring\<close> mutate \<open>chat_data\<close> and the job queue:
  the model returns the result with both as the call leaves them.
\<close>

definition activate_monitoring ::
  "chat_data \<Rightarrow> job_queue \<Rightarrow> int \<Rightarrow> int \<Rightarrow> bool \<times> chat_data \<times> job_queue" where
  "activate_monitoring chat_data q chat_id interval =
     (if monitoring_flag chat_data then (False, chat_data, q)
      else (True, chat_data(ascii ''monitoring'' \<mapsto> True),
            run_repeating q Send_monitoring_update interval 10 chat_id (monitor_name chat_id)))"

definition deactivate_monitoring ::
  "chat_data \<Rightarrow> job_queue \<Rightarrow> int \<Rightarrow> bool \<times> chat_data \<times> job_queue" where
  "deactivate_monitoring chat_data q chat_id =
     (if \<not> monitoring_flag chat_data then (False, chat_data, q)
      else (let current_jobs = get_jobs_by_name q (monitor_name chat_id)
            in (True, chat_data(ascii ''monitoring'' \<mapsto> False),
                fold schedule_removal current_jobs q)))"

text \<open>
  A failure of a reference endpoint, in the words of the specification: the endpoint is
  unreachable (the request raises), the status is not 200, or the body is malformed (it
  is not JSON, or it lacks a height that \<open>int\<close> accepts).
\<close>

fun endpoint_fails :: "http_reply \<Rightarrow> bool" where
  "endpoint_fails (Raises e) = True"
| "endpoint_fails (Response status (Inl e)) = True"
| "endpoint_fails (Response status (Inr data)) =
     (status \<noteq> 200 \<or> (case latest_block_height data of Inl e \<Rightarrow> True | Inr h \<Rightarrow> False))"

section \<open>The monitoring job (\<open>services/monitoring_service.py\<close>)\<close>

text \<open>
  \<open>str(e)\<close> of an exception: the message it carries.
\<close>

fun str_error :: "error \<Rightarrow> pystr" where
  "str_error (ZeroDivisionError msg) = msg"
| "str_error (OverflowError msg) = msg"
| "str_error (KeyError msg) = msg"
| "str_error (ClientConnectorError msg) = msg"
| "str_error (Exception msg) = msg"

text \<open>
  \<open>f"{x:.2f}"\<close>: two decimals, ties to even, a minus sign for a negative number.
\<close>

definition fmt_2f :: "rat \<Rightarrow> pystr" where
  "fmt_2f x =
     (let n = round_half_even (\<bar>x\<bar> * 100)
      in (if x < 0 then ascii ''-'' else []) @ str_int (n div 100) @ ascii ''.'' @
         fmt_02d (n mod 100))"

text \<open>Lines 35--41: the disk section of the report.\<close>

definition disk_status_text :: "pyfloat \<Rightarrow> pystr" where
  "disk_status_text disk =
     [128190] @ ascii '' <b>Disk Status:</b>'' @ [newline] @
     [8226] @ ascii '' Usage: '' @ float_repr disk @ ascii ''%'' @ [newline] @
     (if 90 < float_value disk then
        [9888, 65039] @ ascii '' <b>Warning:</b> Disk usage is very high!'' @ [newline]
      else if 80 < float_value disk then
        [9888, 65039] @ ascii '' <b>Note:</b> Disk usage is getting high'' @ [newline]
      else []) @
     [newline]"

text \<open>Lines 46--65: the line of one service.\<close>

definition service_status_line :: "pystr \<times> pystr \<Rightarrow> pystr" where
  "service_status_line item =
     (let service = fst item; status = snd item;
          (icon, status_text) =
            (if status = ascii ''active'' then ([9989], ascii ''Running'')
             else if status = ascii ''inactive'' then ([9899], ascii ''Stopped'')
             else if status = ascii ''failed'' then ([10060], ascii ''Failed'')
             else if status = ascii ''stopped'' then ([9209, 65039], ascii ''Stopped'')
             else if status = ascii ''unknown'' then ([10067], ascii ''Status Unknown'')
             else ([9888, 65039], ascii ''Status: '' @ status))
      in [8226] @ ascii '' '' @ service @ ascii '': '' @ icon @ ascii '' '' @ status_text @ [newline])"

text \<open>
  Lines 32--66: the report up to the synchronization section, from the statuses of the
  services and the disk usage.
\<close>

definition report_head_text :: "(pystr \<times> pystr) list \<Rightarrow> pyfloat \<Rightarrow> pystr" where
  "report_head_text service_statuses disk =
     [128221] @ ascii '' <b>Monitoring Update:</b>'' @ [newline, newline] @
     disk_status_text disk @
     [128295] @ ascii '' <b>Service Status:</b>'' @ [newline] @
     concat (map service_status_line service_statuses) @
     [newline]"

text \<open>
  Lines 28--66: the two status queries and the report so far, or the exception of a
  query.
\<close>

definition monitoring_report_head :: "world \<Rightarrow> error + pystr" where
  "monitoring_report_head w =
     (case services_status w of
        Inl e \<Rightarrow> Inl e
      | Inr service_statuses \<Rightarrow>
          (case disk_percent w of
             Inl e \<Rightarrow> Inl e
           | Inr disk \<Rightarrow> Inr (report_head_text service_statuses disk)))"

text \<open>Lines 74--87: the synchronization section, from the metrics of the fire.\<close>

definition sync_status_text :: "sync_metrics \<Rightarrow> pystr" where
  "sync_status_text sync_metrics =
     [128260] @ ascii '' <b>Synchronization Status:</b>'' @ [newline] @
     [8226] @ ascii '' Current Height: <code>'' @ str_int (m_current_height sync_metrics) @ ascii ''</code>'' @ [newline] @
     [8226] @ ascii '' Network Height: <code>'' @ str_int (m_network_height sync_metrics) @ ascii ''</code>'' @ [newline] @
     [8226] @ ascii '' Blocks Behind: <code>'' @ str_int (m_blocks_behind sync_metrics) @ ascii ''</code>'' @ [newline] @
     [8226] @ ascii '' Sync Progress: <code>'' @ fmt_2f (m_sync_percent sync_metrics) @ ascii ''%</code>'' @ [newline] @
     (case m_time_remaining sync_metrics of
        Some time_remaining \<Rightarrow>
          if 0 < m_blocks_behind sync_metrics \<and> time_remaining \<noteq> []
          then [8226] @ ascii '' Est. Time Remaining: '' @ time_remaining @ [newline]
          else []
      | None \<Rightarrow> []) @
     (if 100 < m_blocks_behind sync_metrics then
        [9888, 65039] @ ascii '' Node is significantly behind the network'' @ [newline]
      else []) @
     (if m_catching_up sync_metrics then
        [9888, 65039] @ ascii '' Node is still catching up with the network'' @ [newline]
      else [])"

text \<open>Lines 89--101 and 103--108: the text of the two \<open>except\<close> clauses.\<close>

definition connection_error_text :: "error \<Rightarrow> pystr" where
  "connection_error_text e =
     [128683] @ ascii '' <b>Node Connection Error:</b>'' @ [newline, newline] @
     ascii ''Cannot connect to the node API.'' @ [newline] @
     ascii ''<b>Possible reasons:</b>'' @ [newline, 8226] @
     ascii '' The node service is not running'' @ [newline, 8226] @ ascii '' The node'' @
     [39] @ ascii ''s API port (26657) is not accessible'' @ [newline, 8226] @
     ascii '' The node is experiencing issues'' @ [newline, newline] @
     ascii ''<b>Suggested actions:</b>'' @ [newline] @
     ascii ''1. Check if the node service is running'' @ [newline] @
     ascii ''2. Verify the API port is accessible'' @ [newline] @
     ascii ''3. Check node logs for potential issues'' @ [newline, newline] @
     ascii ''<i>Technical details:</i> '' @
     str_error e"

definition node_error_text :: "error \<Rightarrow> pystr" where
  "node_error_text e =
     [10060] @ ascii '' <b>Error Checking Node Status:</b>'' @ [newline, newline] @
     ascii ''<code>'' @
     str_error e @
     ascii ''</code>'' @ [newline, newline] @
     ascii ''The monitoring service will continue running.'' @ [newline] @
     ascii ''Please check your node'' @ [39] @ ascii ''s status manually.''"

text \<open>Lines 129--134: the message of the outer \<open>except\<close> clause.\<close>

definition update_error_text :: "error \<Rightarrow> pystr" where
  "update_error_text e =
     [10060] @ ascii '' <b>Monitoring Update Error:</b>'' @ [newline, newline] @
     ascii ''<code>'' @
     str_error e @
     ascii ''</code>'' @ [newline, newline] @
     ascii ''The monitoring service will continue running.'' @ [newline] @
     ascii ''If this error persists, please check your node'' @ [39] @
     ascii ''s configuration.''"

text \<open>
  \<open>context.bot.send_message(chat_id=..., text=...)\<close>: the message is delivered, or the call
  raises and nothing is delivered.
\<close>

definition bot_send_message :: "world \<Rightarrow> int \<Rightarrow> pystr \<Rightarrow> (error + unit) \<times> world" where
  "bot_send_message w chat_id text =
     (case send_raises w (send_calls w) of
        Some e \<Rightarrow> (Inl e, w\<lparr>send_calls := send_calls w + 1\<rparr>)
      | None \<Rightarrow> (Inr (), w\<lparr>sent := sent w @ [(chat_id, text)],
                             send_calls := send_calls w + 1\<rparr>))"

text \<open>Lines 121--126: one message for each part, up to the first that raises.\<close>

fun send_each :: "world \<Rightarrow> int \<Rightarrow> pystr list \<Rightarrow> (error + unit) \<times> world" where
  "send_each w chat_id [] = (Inr (), w)"
| "send_each w chat_id (msg # messages) =
     (case bot_send_message w chat_id msg of
        (Inl e, w') \<Rightarrow> (Inl e, w')
      | (Inr u, w') \<Rightarrow> send_each w' chat_id messages)"

text \<open>
  Lines 68--108, the inner \<open>try\<close>: a new \<open>SyncMonitor\<close>, its \<open>get_sync_status\<close>, and the
  section of the report that results, for the metrics or for the exception. The monitor
  is a local variable: it is dropped when the section is written.
\<close>

definition sync_report :: "world \<Rightarrow> pystr \<times> world" where
  "sync_report w =
     (let sync_monitor = SyncMonitor_init
      in case get_sync_status sync_monitor w of
           (Inr (sync_metrics, is_healthy), sync_monitor', w') \<Rightarrow>
             (sync_status_text sync_metrics, w')
         | (Inl (ClientConnectorError msg), sync_monitor', w') \<Rightarrow>
             (connection_error_text (ClientConnectorError msg), w')
         | (Inl e, sync_monitor', w') \<Rightarrow> (node_error_text e, w'))"

text \<open>
  Lines 110--126: the report in one message when it has at most 4096 characters, else
  in the parts \<open>split_message\<close> gives; \<open>None\<close> when \<open>split_message\<close> does not return.
\<close>

definition send_report :: "world \<Rightarrow> int \<Rightarrow> pystr \<Rightarrow> ((error + unit) \<times> world) option" where
  "send_report w chat_id message =
     (if length message \<le> 4096 then Some (bot_send_message w chat_id message)
      else (case split_message message 4000 of
              None \<Rightarrow> None
            | Some messages \<Rightarrow> Some (send_each w chat_id messages)))"

text \<open>
  \<open>send_monitoring_update\<close> is a coroutine. It runs from its call to its first \<open>await\<close>
  without interruption, and other handlers of the event loop can run while it waits
  there. \<open>send_monitoring_update_begin\<close> is the run up to the first \<open>await\<close>: the job has
  returned at the flag test of line 22, or it waits, at line 71 with the report so far,
  or, after an exception of lines 28--31, at line 136. \<open>send_monitoring_update_resume\<close> is
  the rest, in the world and with the chat data of the time it resumes. The job reads
  \<open>context.job.chat_id\<close> and \<open>context.chat_data\<close> and writes neither.
\<close>

record job_context =
  context_job_chat_id :: int
  context_chat_data :: chat_data

datatype suspended = Returned | Awaiting "error + pystr"

definition send_monitoring_update_begin :: "job_context \<Rightarrow> world \<Rightarrow> suspended" where
  "send_monitoring_update_begin ctx w =
     (if \<not> monitoring_flag (context_chat_data ctx) then Returned
      else Awaiting (monitoring_report_head w))"

definition send_monitoring_update_resume ::
  "job_context \<Rightarrow> error + pystr \<Rightarrow> world \<Rightarrow> ((error + unit) \<times> world) option" where
  "send_monitoring_update_resume ctx head w =
     (let chat_id = context_job_chat_id ctx
      in case head of
           Inl e \<Rightarrow> Some (bot_send_message w chat_id (update_error_text e))
         | Inr message \<Rightarrow>
             (case sync_report w of
                (section, w1) \<Rightarrow>
                  (case send_report w1 chat_id (message @ section) of
                     None \<Rightarrow> None
                   | Some (Inr u, w2) \<Rightarrow> Some (Inr u, w2)
                   | Some (Inl e, w2) \<Rightarrow>
                       Some (bot_send_message w2 chat_id (update_error_text e)))))"

text \<open>The job when nothing else runs while it waits.\<close>

definition send_monitoring_update :: "job_context \<Rightarrow> world \<Rightarrow> ((error + unit) \<times> world) option" where
  "send_monitoring_update ctx w =
     (case send_monitoring_update_begin ctx w of
        Returned \<Rightarrow> Some (Inr (), w)
      | Awaiting head \<Rightarrow> send_monitoring_update_resume ctx head w)"

subsection \<open>Worlds for the examples\<close>

text \<open>
  A status document with a height, of a node that is catching up; two services, both
  active; a disk at 45.3 percent; and a world at a given time in which the three endpoints
  give the replies named, every \<open>send_message\<close> succeeds and nothing has happened yet.
\<close>

definition status_at :: "int \<Rightarrow> node_status" where
  "status_at h = \<lparr>latest_block_height = Inr h, catching_up = Inr True\<rparr>"

definition two_services :: "(pystr \<times> pystr) list" where
  "two_services = [(ascii ''story'', ascii ''active''), (ascii ''story-geth'', ascii ''active'')]"

definition disk_45 :: pyfloat where
  "disk_45 = \<lparr>float_value = 45.3, float_repr = ascii ''45.3''\<rparr>"

definition world_with :: "http_reply \<Rightarrow> http_reply \<Rightarrow> http_reply \<Rightarrow> int \<Rightarrow> world" where
  "world_with r1 r2 local t =
     \<lparr>http = (\<lambda>url. case url of RPC_ENDPOINT_1 \<Rightarrow> r1 | RPC_ENDPOINT_2 \<Rightarrow> r2
                           | NODE_STATUS_URL \<Rightarrow> local),
      clock = t,
      services_status = Inr two_services,
      disk_percent = Inr disk_45,
      send_raises = (\<lambda>n. None),
      requests = [],
      sent = [],
      send_calls = 0\<rparr>"

text \<open>The job that \<open>activate_monitoring\<close> schedules for chat 42 every 300 seconds.\<close>

definition job_42 :: job where
  "job_42 = \<lparr>job_callback = Send_monitoring_update, job_interval = 300, job_first = 10,
              job_chat_id = 42, job_name = monitor_name 42\<rparr>"

section \<open>Properties of the sync metrics\<close>


lemma sync_progress_behind:
  "c < n \<Longrightarrow> sync_progress c n =
     Inr (n - c, py_min 99.99 (py_round (if 0 < n then of_int c / of_int n * 100 else 0) 2))"
  by (simp add: sync_progress_def py_truediv_def Let_def)

lemma sync_progress_synced: "n \<le> c \<Longrightarrow> sync_progress c n = Inr (0, 100)"
  by (simp add: sync_progress_def)

lemma sync_progress_no_raise: "sync_progress c n \<noteq> Inl e"
  by (cases "c < n") (simp_all add: sync_progress_behind sync_progress_synced)

lemma py_round_0: "py_round 0 k = 0"
  by (simp add: py_round_def round_half_even_def)

lemma update_sync_speed_no_raise: "update_sync_speed self now c \<noteq> Inl e"
  by (simp add: update_sync_speed_def py_truediv_def Let_def split: option.splits)

lemma estimate_time_remaining_no_zero_div:
  "estimate_time_remaining v bb \<noteq> Inl (ZeroDivisionError msg)"
  by (auto simp: estimate_time_remaining_def py_truediv_def timedelta_of_seconds_def Let_def
      split: sum.splits)

text \<open>What a returning call has computed, step by step.\<close>

lemma calculate_sync_metrics_Inr:
  assumes "calculate_sync_metrics self now c n st = (Inr m, self')"
  shows "sync_progress c n = Inr (m_blocks_behind m, m_sync_percent m)"
    and "update_sync_speed self now c = Inr (m_sync_speed m)"
    and "estimate_time_remaining (m_sync_speed m) (m_blocks_behind m) = Inr (m_time_remaining m)"
    and "catching_up st = Inr (m_catching_up m)"
    and "m_current_height m = c" and "m_network_height m = n"
    and "self' = self\<lparr>sync_speed := m_sync_speed m, last_height := c, last_check_time := Some now\<rparr>"
  using assms
  by (auto simp: calculate_sync_metrics_def Let_def split: sum.splits prod.splits)









text \<open>
  Claim C5, as amended. With \<open>network_height = 0\<close> no division by zero is attempted: a call
  that raises raises the \<open>OverflowError\<close> of an out-of-range \<open>timedelta\<close> or the exception of
  the \<open>catching_up\<close> lookup. A returning call reports \<open>sync_percent = 0\<close> only when
  \<open>current_height\<close> is negative, the one case in which the node is behind a network of
  height 0; for \<open>current_height \<ge> 0\<close> it reports \<open>blocks_behind = 0\<close> and
  \<open>sync_percent = 100\<close>.
\<close>

theorem calculate_sync_metrics_zero_network:
  assumes "calculate_sync_metrics self now c 0 st = (r, self')"
  shows "(\<forall>e. r = Inl e \<longrightarrow> (\<exists>msg. e = OverflowError msg) \<or> catching_up st = Inl e) \<and>
         (\<forall>m. r = Inr m \<longrightarrow>
            (c < 0 \<longrightarrow> m_blocks_behind m = - c \<and> m_sync_percent m = 0) \<and>
            (0 \<le> c \<longrightarrow> m_blocks_behind m = 0 \<and> m_sync_percent m = 100))"
proof -
  have p: "sync_progress c 0 = Inr (if c < 0 then (- c, 0) else (0, 100))"
    by (simp add: sync_progress_behind sync_progress_synced py_round_0 py_min_def)
  have a: "\<forall>e. r = Inl e \<longrightarrow> (\<exists>msg. e = OverflowError msg) \<or> catching_up st = Inl e"
    using assms p update_sync_speed_no_raise [of self now c]
    by (auto simp: calculate_sync_metrics_def estimate_time_remaining_def py_truediv_def
        timedelta_of_seconds_def Let_def split: sum.splits if_splits)
  have b: "\<forall>m. r = Inr m \<longrightarrow>
            (c < 0 \<longrightarrow> m_blocks_behind m = - c \<and> m_sync_percent m = 0) \<and>
            (0 \<le> c \<longrightarrow> m_blocks_behind m = 0 \<and> m_sync_percent m = 100)"
  proof (intro allI impI)
    fix m assume "r = Inr m"
    with assms have "calculate_sync_metrics self now c 0 st = (Inr m, self')" by simp
    from calculate_sync_metrics_Inr(1) [OF this] p
    show "(c < 0 \<longrightarrow> m_blocks_behind m = - c \<and> m_sync_percent m = 0) \<and>
          (0 \<le> c \<longrightarrow> m_blocks_behind m = 0 \<and> m_sync_percent m = 100)"
      by (auto split: if_splits)
  qed
  from a b show ?thesis by blast
qed

text \<open>
  An empty chain on both sides, \<open>current_height = network_height = 0\<close>: the call returns
  \<open>sync_percent = 100\<close>, not 0.
\<close>

theorem calculate_sync_metrics_zero_network_counterexample:
  "calculate_sync_metrics SyncMonitor_init 0 0 0
       \<lparr>latest_block_height = Inr 0, catching_up = Inr False\<rparr> =
     (Inr \<lparr>m_current_height = 0, m_network_height = 0, m_blocks_behind = 0,
           m_sync_percent = 100, m_sync_speed = 0, m_time_remaining = None,
           m_catching_up = False\<rparr>,
      \<lparr>last_height = 0, last_check_time = Some 0, sync_speed = 0\<rparr>) \<and>
   (100::rat) \<noteq> 0"
  by (simp add: calculate_sync_metrics_def sync_progress_def update_sync_speed_def
      estimate_time_remaining_def SyncMonitor_init_def)

theorem calculate_sync_metrics_zero_network_witness:
  "calculate_sync_metrics SyncMonitor_init 0 (- 5) 0
       \<lparr>latest_block_height = Inr (- 5), catching_up = Inr False\<rparr> =
     (Inr \<lparr>m_current_height = - 5, m_network_height = 0, m_blocks_behind = 5,
           m_sync_percent = 0, m_sync_speed = 0, m_time_remaining = None,
           m_catching_up = False\<rparr>,
      \<lparr>last_height = - 5, last_check_time = Some 0, sync_speed = 0\<rparr>) \<and>
   calculate_sync_metrics SyncMonitor_init 0 7 0
       \<lparr>latest_block_height = Inr 7, catching_up = Inr False\<rparr> =
     (Inr \<lparr>m_current_height = 7, m_network_height = 0, m_blocks_behind = 0,
           m_sync_percent = 100, m_sync_speed = 0, m_time_remaining = None,
           m_catching_up = False\<rparr>,
      \<lparr>last_height = 7, last_check_time = Some 0, sync_speed = 0\<rparr>) \<and>
   (5::int) = - (- 5)"
proof -
  have h1: "calculate_sync_metrics SyncMonitor_init 0 (- 5) 0
       \<lparr>latest_block_height = Inr (- 5), catching_up = Inr False\<rparr> =
     (Inr \<lparr>m_current_height = - 5, m_network_height = 0, m_blocks_behind = 5,
           m_sync_percent = 0, m_sync_speed = 0, m_time_remaining = None,
           m_catching_up = False\<rparr>,
      \<lparr>last_height = - 5, last_check_time = Some 0, sync_speed = 0\<rparr>)"
    by (simp add: calculate_sync_metrics_def sync_progress_def update_sync_speed_def
      estimate_time_remaining_def SyncMonitor_init_def py_min_def py_round_0)
  have h2: "calculate_sync_metrics SyncMonitor_init 0 7 0
       \<lparr>latest_block_height = Inr 7, catching_up = Inr False\<rparr> =
     (Inr \<lparr>m_current_height = 7, m_network_height = 0, m_blocks_behind = 0,
           m_sync_percent = 100, m_sync_speed = 0, m_time_remaining = None,
           m_catching_up = False\<rparr>,
      \<lparr>last_height = 7, last_check_time = Some 0, sync_speed = 0\<rparr>)"
    by (simp add: calculate_sync_metrics_def sync_progress_def update_sync_speed_def
      estimate_time_remaining_def SyncMonitor_init_def)
  from calculate_sync_metrics_zero_network [OF h1] calculate_sync_metrics_zero_network [OF h2]
    h1 h2 show ?thesis by simp
qed

section \<open>Properties of message splitting\<close>

lemma sorted_le_last: "sorted xs \<Longrightarrow> x \<in> set xs \<Longrightarrow> x \<le> last (xs :: nat list)"
  by (induction xs) auto

lemma last_filter_upt_max:
  assumes "filter P [0 ..< n] \<noteq> []"
  shows "P (last (filter P [0 ..< n])) \<and> last (filter P [0 ..< n]) < n \<and>
         (\<forall>j. last (filter P [0 ..< n]) < j \<and> j < n \<longrightarrow> \<not> P j)"
proof -
  let ?xs = "filter P [0 ..< n]"
  have s: "sorted ?xs" by (simp add: sorted_wrt_filter)
  have l: "last ?xs \<in> set ?xs" using assms by (rule last_in_set)
  have m: "\<forall>x \<in> set ?xs. x \<le> last ?xs"
    using s by (auto intro: sorted_le_last)
  from l m show ?thesis by auto
qed

lemma set_take_nth: "x \<in> set (take e s) \<longleftrightarrow> (\<exists>i. i < e \<and> i < length s \<and> s ! i = x)"
proof
  assume "x \<in> set (take e s)"
  then obtain j where "j < length (take e s)" "take e s ! j = x"
    by (auto simp: in_set_conv_nth)
  then show "\<exists>i. i < e \<and> i < length s \<and> s ! i = x"
    by (intro exI [of _ j]) simp
next
  assume "\<exists>i. i < e \<and> i < length s \<and> s ! i = x"
  then obtain i where i: "i < e" "i < length s" "s ! i = x" by blast
  then have "i < length (take e s)" "take e s ! i = x" by auto
  then show "x \<in> set (take e s)" by (metis nth_mem)
qed

lemma set_drop_take_nth:
  "x \<in> set (drop a (take e s)) \<longleftrightarrow> (\<exists>i. a \<le> i \<and> i < e \<and> i < length s \<and> s ! i = x)"
proof
  assume "x \<in> set (drop a (take e s))"
  then obtain j where j: "j < length (drop a (take e s))" "drop a (take e s) ! j = x"
    by (auto simp: in_set_conv_nth)
  then have "a + j < e \<and> a + j < length s \<and> s ! (a + j) = x"
    by (simp add: nth_drop less_diff_conv add.commute)
  then show "\<exists>i. a \<le> i \<and> i < e \<and> i < length s \<and> s ! i = x"
    by (intro exI [of _ "a + j"]) simp
next
  assume "\<exists>i. a \<le> i \<and> i < e \<and> i < length s \<and> s ! i = x"
  then obtain i where i: "a \<le> i" "i < e" "i < length s" "s ! i = x" by blast
  then have "i - a < length (drop a (take e s))" "drop a (take e s) ! (i - a) = x"
    by (simp_all add: nth_drop)
  then show "x \<in> set (drop a (take e s))" by (metis nth_mem)
qed

lemma rfind_none:
  assumes "c \<notin> set (take e s)"
  shows "rfind s c 0 e = - 1"
proof -
  have "\<forall>i \<in> set [0 ..< min e (length s)]. s ! i \<noteq> c"
    using assms unfolding set_take_nth by simp
  then have "filter (\<lambda>i. s ! i = c) [0 ..< min e (length s)] = []"
    unfolding filter_empty_conv by blast
  then show ?thesis by (simp add: rfind_def)
qed

lemma rfind_some:
  assumes "c \<in> set (take e s)"
  shows "\<exists>k. rfind s c 0 e = int k \<and> k < e \<and> k < length s \<and> s ! k = c \<and>
              c \<notin> set (drop (Suc k) (take e s))"
proof -
  let ?P = "\<lambda>i. s ! i = c"
  let ?n = "min e (length s)"
  define k where "k = last (filter ?P [0 ..< ?n])"
  from assms obtain i where i: "i < e" "i < length s" "s ! i = c"
    unfolding set_take_nth by blast
  then have "i \<in> set [0 ..< ?n] \<and> ?P i" by simp
  then have ne: "filter ?P [0 ..< ?n] \<noteq> []"
    unfolding filter_empty_conv by blast
  from last_filter_upt_max [of ?P ?n, OF ne]
  have k: "s ! k = c" "k < ?n" "\<forall>j. k < j \<and> j < ?n \<longrightarrow> s ! j \<noteq> c"
    unfolding k_def by blast+
  have r: "rfind s c 0 e = int k"
    using ne unfolding k_def rfind_def Let_def by simp
  have "c \<notin> set (drop (Suc k) (take e s))"
    unfolding set_drop_take_nth using k(3) by (simp add: Suc_le_eq) 
  with r k(1,2) show ?thesis by (intro exI [of _ k]) simp
qed


lemma split_loop_unfold:
  "split_loop parts m n =
     (if n < length m
      then split_loop (parts @ [take (split_index m n) m]) (drop (split_index m n) m) n
      else Some (parts @ [m]))"
  by (subst split_loop.simps) (simp add: split_index_def Let_def)

lemma split_index_point: "split_point n m (split_index m n)"
proof (cases "newline \<in> set (take n m)")
  case True
  from rfind_some [OF True] obtain k where k: "rfind m newline 0 n = int k" "k < n"
    "k < length m" "m ! k = newline" "newline \<notin> set (drop (Suc k) (take n m))" by blast
  then have "split_index m n = k" by (simp add: split_index_def)
  with True k show ?thesis by (simp add: split_point_def)
next
  case False
  then have "split_index m n = n" by (simp add: split_index_def rfind_none)
  with False show ?thesis by (simp add: split_point_def)
qed

lemma split_point_le: "split_point n m k \<Longrightarrow> n < length m \<Longrightarrow> k \<le> n \<and> k < length m"
  by (auto simp: split_point_def split: if_splits)

lemma split_point_unique: "split_point n m k \<Longrightarrow> split_point n m k' \<Longrightarrow> k = k'"
proof (cases "newline \<in> set (take n m)")
  case False
  assume "split_point n m k" "split_point n m k'"
  with False show ?thesis by (simp add: split_point_def)
next
  case True
  assume "split_point n m k" "split_point n m k'"
  with True have k: "k < n" "k < length m" "m ! k = newline"
      "newline \<notin> set (drop (Suc k) (take n m))"
    and k': "k' < n" "k' < length m" "m ! k' = newline"
      "newline \<notin> set (drop (Suc k') (take n m))"
    by (simp_all add: split_point_def)
  from k(4) k'(1-3) have "\<not> Suc k \<le> k'" unfolding set_drop_take_nth by blast
  moreover from k'(4) k(1-3) have "\<not> Suc k' \<le> k" unfolding set_drop_take_nth by blast
  ultimately show ?thesis by simp
qed

lemma split_at_points_Cons:
  assumes "n < length m" "split_point n m k" "split_at_points n (drop k m) qs"
  shows "split_at_points n m (take k m # qs)"
proof -
  from split_point_le [OF assms(2,1)] have l: "length (take k m) = k" by simp
  from assms(3) obtain q qs' where "qs = q # qs'" by (cases qs) auto
  with assms l show ?thesis by simp
qed

lemma split_loop_split_at_points:
  "split_loop parts m n = Some ps \<Longrightarrow> \<exists>qs. ps = parts @ qs \<and> split_at_points n m qs"
proof (induction parts m n ps rule: split_loop.raw_induct [rotated 1, consumes 1])
  case (1 f parts m n ps)
  show ?case
  proof (cases "n < length m")
    case True
    with 1(2) have "f (parts @ [take (split_index m n) m]) (drop (split_index m n) m) n = Some ps"
      by (simp add: split_index_def Let_def)
    from 1(1) [OF this] obtain qs where qs: "ps = (parts @ [take (split_index m n) m]) @ qs"
      "split_at_points n (drop (split_index m n) m) qs" by blast
    from split_at_points_Cons [OF True split_index_point qs(2)] qs(1)
    show ?thesis by simp
  next
    case False
    with 1(2) have "ps = parts @ [m]" "split_at_points n m [m]" by simp_all
    then show ?thesis by blast
  qed
qed

lemma split_at_points_concat: "split_at_points n m ps \<Longrightarrow> concat ps = m"
proof (induction n m ps rule: split_at_points.induct)
  case (3 n m p q ps)
  then have "concat (q # ps) = drop (length p) m" and "p = take (length p) m" by simp_all
  then have "concat (p # q # ps) = take (length p) m @ drop (length p) m"
    by (metis concat.simps(2))
  then show ?case by simp
qed simp_all

lemma split_at_points_length: "split_at_points n m ps \<Longrightarrow> p \<in> set ps \<Longrightarrow> length p \<le> n"
proof (induction n m ps rule: split_at_points.induct)
  case (3 n m p' q ps)
  from 3(2) have "n < length m" "split_point n m (length p')" by simp_all
  from split_point_le [OF this(2,1)] have "length p' \<le> n" by simp
  with 3 show ?case by auto
qed auto

lemma split_loop_stuck:
  assumes "n < length m" "split_index m n = 0"
  shows "split_loop parts m n = None"
proof (rule ccontr)
  assume "split_loop parts m n \<noteq> None"
  then obtain ps where "split_loop parts m n = Some ps" by blast
  then have "\<not> (n < length m \<and> split_index m n = 0)"
  proof (induction parts m n ps rule: split_loop.raw_induct [rotated 1, consumes 1])
    case (1 f parts m n ps)
    show ?case
    proof
      assume a: "n < length m \<and> split_index m n = 0"
      with 1(2) have "f (parts @ [take (split_index m n) m]) (drop (split_index m n) m) n = Some ps"
        by (simp add: split_index_def Let_def)
      with a have "f (parts @ [[]]) m n = Some ps" by simp
      from 1(1) [OF this] a show False by simp
    qed
  qed
  with assms show False by simp
qed


lemma split_loop_stuck_newline:
  assumes "0 < n" "n < length (newline # r)" "newline \<notin> set (take (n - 1) r)"
  shows "split_loop parts (newline # r) n = None"
proof -
  from assms(1) obtain n' where n': "n = Suc n'" by (cases n) auto
  with assms(3) have "split_point n (newline # r) 0"
    by (simp add: split_point_def)
  from split_point_unique [OF split_index_point this]
  have "split_index (newline # r) n = 0" .
  with assms(2) show ?thesis by (rule split_loop_stuck)
qed

lemma split_loop_no_newline:
  assumes "n < length m" "newline \<notin> set (take n m)"
  shows "split_loop parts m n = split_loop (parts @ [take n m]) (drop n m) n"
proof -
  from assms(2) have "split_index m n = n" by (simp add: split_index_def rfind_none)
  with assms(1) show ?thesis by (subst split_loop_unfold) simp
qed

lemma split_message_two_lines: "split_message (replicate 3000 97 @ newline # replicate 3000 98) 4000 =
   Some [replicate 3000 97, newline # replicate 3000 98]"
proof -
  let ?m = "replicate 3000 97 @ newline # replicate 3000 (98::nat)"
  have "split_point 4000 ?m 3000"
    by (simp add: split_point_def nth_append newline_def)
  from split_point_unique [OF split_index_point this]
  have i: "split_index ?m 4000 = 3000" .
  have "split_loop [] ?m 4000 = split_loop [replicate 3000 97] (newline # replicate 3000 98) 4000"
    by (subst split_loop_unfold) (simp add: i)
  also have "\<dots> = Some [replicate 3000 97, newline # replicate 3000 98]"
    by (subst split_loop_unfold) simp
  finally show ?thesis by (simp add: split_message_def)
qed

text \<open>
  Claim C8, as amended. Whenever \<open>split_message\<close> returns, its parts cut the text at split
  points, repeated until the remainder is at most \<open>max_length\<close> long, where each split
  point is the last newline among the first \<open>max_length\<close> characters of the remaining text
  (the newline begins the next part), or \<open>max_length\<close> itself when those characters hold
  no newline; every part is at most \<open>max_length\<close> characters long, and the parts
  concatenated in order are the original text.
\<close>

theorem split_message_parts:
  assumes "split_message m n = Some ps"
  shows "split_at_points n m ps \<and> concat ps = m \<and> (\<forall>p \<in> set ps. length p \<le> n)"
proof -
  from assms have "split_loop [] m n = Some ps" by (simp add: split_message_def)
  from split_loop_split_at_points [OF this] have a: "split_at_points n m ps" by simp
  from a have "concat ps = m" by (rule split_at_points_concat)
  moreover from a have "\<forall>p \<in> set ps. length p \<le> n" by (blast intro: split_at_points_length)
  ultimately show ?thesis using a by simp
qed

text \<open>
  Two lines of 3000 characters each: one split, at the newline between them.
\<close>

theorem split_message_parts_witness:
  "split_message (replicate 3000 97 @ newline # replicate 3000 98) 4000 =
     Some [replicate 3000 97, newline # replicate 3000 98] \<and>
   split_at_points 4000 (replicate 3000 97 @ newline # replicate 3000 98)
     [replicate 3000 97, newline # replicate 3000 98] \<and>
   concat [replicate 3000 97, newline # replicate 3000 98] =
     replicate 3000 97 @ newline # replicate 3000 98 \<and>
   length (replicate 3000 (97::nat)) \<le> 4000 \<and>
   length (newline # replicate 3000 98) \<le> 4000"
  using split_message_parts [OF split_message_two_lines] split_message_two_lines
  by simp

text \<open>
  A text of 4001 letters \<open>a\<close> holds no newline, and is split all the same, after 4000
  characters.
\<close>

theorem split_message_parts_counterexample:
  "split_message (replicate 4001 97) 4000 = Some [replicate 4000 97, [97]] \<and>
   newline \<notin> set (replicate 4001 97)"
proof -
  have n: "newline \<notin> set (replicate 4001 (97::nat))" by (simp add: newline_def)
  then have "newline \<notin> set (take 4000 (replicate 4001 (97::nat)))" by (simp add: newline_def)
  from split_loop_no_newline [of 4000 "replicate 4001 97" "[]", OF _ this]
  have "split_loop [] (replicate 4001 97) 4000 = split_loop [replicate 4000 97] [97] 4000"
    by simp
  also have "\<dots> = Some [replicate 4000 97, [97]]"
    by (subst split_loop_unfold) simp
  finally show ?thesis using n by (simp add: split_message_def)
qed

text \<open>
  Claim C9 fails on the code: on a newline followed by 4000 letters \<open>b\<close> the loop finds its
  only newline at index 0, appends an empty part, keeps the whole message and never
  returns.
\<close>

theorem split_message_never_returns:
  "split_message (newline # replicate 4000 98) 4000 = None"
  unfolding split_message_def
  by (rule split_loop_stuck_newline) (simp_all add: newline_def)

section \<open>Properties of activation and deactivation\<close>

lemma fold_schedule_removal:
  "\<forall>y \<in> set ys. \<not> P y \<Longrightarrow>
   fold schedule_removal (filter P xs) (ys @ xs) = ys @ filter (\<lambda>x. \<not> P x) xs"
proof (induction xs arbitrary: ys)
  case Nil
  then show ?case by simp
next
  case (Cons x xs)
  show ?case
  proof (cases "P x")
    case True
    with Cons.prems have "x \<notin> set ys" by blast
    then have "remove1 x (ys @ x # xs) = ys @ xs" by (simp add: remove1_append)
    with True Cons.IH [OF Cons.prems] show ?thesis by (simp add: schedule_removal_def)
  next
    case False
    with Cons.prems have "\<forall>y \<in> set (ys @ [x]). \<not> P y" by simp
    from Cons.IH [OF this] False show ?thesis by simp
  qed
qed

lemma deactivate_removes:
  "fold schedule_removal (get_jobs_by_name q name) q = filter (\<lambda>j. job_name j \<noteq> name) q"
  using fold_schedule_removal [of "[]" "\<lambda>j. job_name j = name" q]
  by (simp add: get_jobs_by_name_def)


lemma monitoring_flag_upd [simp]: "monitoring_flag (cd(ascii ''monitoring'' \<mapsto> v)) = v"
  by (simp add: monitoring_flag_def)

text \<open>
  Claim C6. With the flag of the chat set, \<open>activate_monitoring\<close> returns \<open>False\<close> and
  changes nothing; otherwise it sets the flag, adds one job that repeats at the given
  interval after a first delay of 10 seconds, and returns \<open>True\<close>, so that a second call
  returns \<open>False\<close> and a chat that had no job has exactly one. With the flag not set,
  as for a chat never activated, \<open>deactivate_monitoring\<close> returns \<open>False\<close> and changes
  nothing; otherwise it clears the flag, removes every job of the chat's name and no
  other, and returns \<open>True\<close>.
\<close>

theorem monitoring_activation:
  "(monitoring_flag cd \<longrightarrow> activate_monitoring cd q c i = (False, cd, q)) \<and>
   (\<not> monitoring_flag cd \<longrightarrow>
      (\<exists>cd'. activate_monitoring cd q c i =
         (True, cd', q @ [\<lparr>job_callback = Send_monitoring_update, job_interval = i,
                          job_first = 10, job_chat_id = c, job_name = monitor_name c\<rparr>]) \<and>
         monitoring_flag cd')) \<and>
   (\<not> monitoring_flag cd \<and> get_jobs_by_name q (monitor_name c) = [] \<longrightarrow>
      (\<exists>cd' q'. activate_monitoring cd q c i = (True, cd', q') \<and>
         activate_monitoring cd' q' c i = (False, cd', q') \<and>
         length (get_jobs_by_name q' (monitor_name c)) = 1)) \<and>
   (\<not> monitoring_flag cd \<longrightarrow> deactivate_monitoring cd q c = (False, cd, q)) \<and>
   (monitoring_flag cd \<longrightarrow>
      (\<exists>cd'. deactivate_monitoring cd q c =
         (True, cd', filter (\<lambda>j. job_name j \<noteq> monitor_name c) q) \<and>
         \<not> monitoring_flag cd' \<and>
         get_jobs_by_name (filter (\<lambda>j. job_name j \<noteq> monitor_name c) q) (monitor_name c) = []))"
proof -
  have a: "monitoring_flag cd \<longrightarrow> activate_monitoring cd q c i = (False, cd, q)"
    by (simp add: activate_monitoring_def)
  have b: "\<not> monitoring_flag cd \<longrightarrow>
      (\<exists>cd'. activate_monitoring cd q c i =
         (True, cd', q @ [\<lparr>job_callback = Send_monitoring_update, job_interval = i,
                          job_first = 10, job_chat_id = c, job_name = monitor_name c\<rparr>]) \<and>
         monitoring_flag cd')"
    by (simp add: activate_monitoring_def run_repeating_def)
  have c: "\<not> monitoring_flag cd \<and> get_jobs_by_name q (monitor_name c) = [] \<longrightarrow>
      (\<exists>cd' q'. activate_monitoring cd q c i = (True, cd', q') \<and>
         activate_monitoring cd' q' c i = (False, cd', q') \<and>
         length (get_jobs_by_name q' (monitor_name c)) = 1)"
    by (simp add: activate_monitoring_def run_repeating_def get_jobs_by_name_def)
  have d: "\<not> monitoring_flag cd \<longrightarrow> deactivate_monitoring cd q c = (False, cd, q)"
    by (simp add: deactivate_monitoring_def)
  have e: "monitoring_flag cd \<longrightarrow>
      (\<exists>cd'. deactivate_monitoring cd q c =
         (True, cd', filter (\<lambda>j. job_name j \<noteq> monitor_name c) q) \<and>
         \<not> monitoring_flag cd' \<and>
         get_jobs_by_name (filter (\<lambda>j. job_name j \<noteq> monitor_name c) q) (monitor_name c) = [])"
    using deactivate_removes [of q "monitor_name c"]
    by (simp add: deactivate_monitoring_def get_jobs_by_name_def)
  from a b c d e show ?thesis by blast
qed

text \<open>
  Chat 42, never activated: activated, activated again, deactivated; and deactivated
  without ever having been activated.
\<close>

theorem monitoring_activation_witness:
  "activate_monitoring Map.empty [] 42 300 =
     (True, [ascii ''monitoring'' \<mapsto> True],
      [\<lparr>job_callback = Send_monitoring_update, job_interval = 300,
        job_first = 10, job_chat_id = 42, job_name = monitor_name 42\<rparr>]) \<and>
   activate_monitoring [ascii ''monitoring'' \<mapsto> True]
      [\<lparr>job_callback = Send_monitoring_update, job_interval = 300,
        job_first = 10, job_chat_id = 42, job_name = monitor_name 42\<rparr>] 42 300 =
     (False, [ascii ''monitoring'' \<mapsto> True],
      [\<lparr>job_callback = Send_monitoring_update, job_interval = 300,
        job_first = 10, job_chat_id = 42, job_name = monitor_name 42\<rparr>]) \<and>
   deactivate_monitoring [ascii ''monitoring'' \<mapsto> True]
      [\<lparr>job_callback = Send_monitoring_update, job_interval = 300,
        job_first = 10, job_chat_id = 42, job_name = monitor_name 42\<rparr>] 42 =
     (True, [ascii ''monitoring'' \<mapsto> False], []) \<and>
   deactivate_monitoring Map.empty [] 42 = (False, Map.empty, [])"
proof -
  have f: "\<not> monitoring_flag Map.empty" by (simp add: monitoring_flag_def)
  have t: "monitoring_flag [ascii ''monitoring'' \<mapsto> True]" by simp
  from monitoring_activation [of Map.empty "[]" 42 300] f
    monitoring_activation [of "[ascii ''monitoring'' \<mapsto> True]"
      "[\<lparr>job_callback = Send_monitoring_update, job_interval = 300,
        job_first = 10, job_chat_id = 42, job_name = monitor_name 42\<rparr>]" 42 300] t
  show ?thesis
    by (simp add: activate_monitoring_def deactivate_monitoring_def run_repeating_def)
qed

section \<open>Properties of the sync monitor's queries\<close>

lemma rpc_height_fails:
  "endpoint_fails (http w url) \<Longrightarrow> rpc_height w url = (None, w\<lparr>requests := requests w @ [url]\<rparr>)"
  by (cases "http w url" rule: endpoint_fails.cases)
    (auto simp: rpc_height_def http_get_def split: sum.splits)

lemma rpc_height_succeeds:
  "http w url = Response 200 (Inr data) \<Longrightarrow> latest_block_height data = Inr h \<Longrightarrow>
   rpc_height w url = (Some h, w\<lparr>requests := requests w @ [url]\<rparr>)"
  by (simp add: rpc_height_def http_get_def)

text \<open>A reply that is not a failure is a 200 with a height.\<close>

lemma endpoint_fails_or_succeeds:
  "endpoint_fails r \<or> (\<exists>data h. r = Response 200 (Inr data) \<and> latest_block_height data = Inr h)"
  by (cases r rule: endpoint_fails.cases) (auto split: sum.splits)

lemma rpc_height_requests:
  "rpc_height w url = (r, w') \<Longrightarrow> w' = w\<lparr>requests := requests w @ [url]\<rparr>"
  by (auto simp: rpc_height_def http_get_def split: http_reply.splits sum.splits if_splits)

lemma get_network_height_first:
  assumes "http w RPC_ENDPOINT_1 = Response 200 (Inr data)" "latest_block_height data = Inr h"
  shows "get_network_height w = (Inr h, w\<lparr>requests := requests w @ [RPC_ENDPOINT_1]\<rparr>)"
  using rpc_height_succeeds [OF assms] by (simp add: get_network_height_def)

lemma get_network_height_second:
  assumes "endpoint_fails (http w RPC_ENDPOINT_1)"
    "http w RPC_ENDPOINT_2 = Response 200 (Inr data)" "latest_block_height data = Inr h"
  shows "get_network_height w =
    (Inr h, w\<lparr>requests := requests w @ [RPC_ENDPOINT_1, RPC_ENDPOINT_2]\<rparr>)"
proof -
  let ?w1 = "w\<lparr>requests := requests w @ [RPC_ENDPOINT_1]\<rparr>"
  have 1: "rpc_height w RPC_ENDPOINT_1 = (None, ?w1)" using assms(1) by (rule rpc_height_fails)
  have "http ?w1 RPC_ENDPOINT_2 = Response 200 (Inr data)" using assms(2) by simp
  from rpc_height_succeeds [OF this assms(3)] 1 show ?thesis
    by (simp add: get_network_height_def)
qed

lemma get_network_height_none:
  assumes "endpoint_fails (http w RPC_ENDPOINT_1)" "endpoint_fails (http w RPC_ENDPOINT_2)"
  shows "get_network_height w =
    (Inl NoReferenceAvailable, w\<lparr>requests := requests w @ [RPC_ENDPOINT_1, RPC_ENDPOINT_2]\<rparr>)"
proof -
  let ?w1 = "w\<lparr>requests := requests w @ [RPC_ENDPOINT_1]\<rparr>"
  have 1: "rpc_height w RPC_ENDPOINT_1 = (None, ?w1)" using assms(1) by (rule rpc_height_fails)
  have "endpoint_fails (http ?w1 RPC_ENDPOINT_2)" using assms(2) by simp
  from rpc_height_fails [OF this] 1 show ?thesis
    by (simp add: get_network_height_def)
qed

lemma get_network_height_requests:
  assumes "get_network_height w = (r, w')"
  shows "w' = w\<lparr>requests := requests w @ [RPC_ENDPOINT_1]\<rparr> \<or>
         w' = w\<lparr>requests := requests w @ [RPC_ENDPOINT_1, RPC_ENDPOINT_2]\<rparr>"
proof -
  obtain r1 w1 where 1: "rpc_height w RPC_ENDPOINT_1 = (r1, w1)"
    by (cases "rpc_height w RPC_ENDPOINT_1")
  obtain r2 w2 where 2: "rpc_height w1 RPC_ENDPOINT_2 = (r2, w2)"
    by (cases "rpc_height w1 RPC_ENDPOINT_2")
  from rpc_height_requests [OF 1] rpc_height_requests [OF 2] 1 2 assms show ?thesis
    by (auto simp: get_network_height_def split: option.splits)
qed

lemma get_node_status_requests:
  "get_node_status w = (r, w') \<Longrightarrow> w' = w\<lparr>requests := requests w @ [NODE_STATUS_URL]\<rparr>"
  by (auto simp: get_node_status_def http_get_def split: http_reply.splits if_splits)

text \<open>The requests of one \<open>get_sync_status\<close>: four possible traces.\<close>

lemma get_sync_status_requests:
  assumes "get_sync_status self w = (r, self', w')"
  shows "\<exists>rs. w' = w\<lparr>requests := requests w @ rs\<rparr> \<and>
           rs \<in> {[RPC_ENDPOINT_1], [RPC_ENDPOINT_1, RPC_ENDPOINT_2],
                 [RPC_ENDPOINT_1, NODE_STATUS_URL],
                 [RPC_ENDPOINT_1, RPC_ENDPOINT_2, NODE_STATUS_URL]}"
proof -
  obtain r1 w1 where 1: "get_network_height w = (r1, w1)" by (cases "get_network_height w")
  obtain r2 w2 where 2: "get_node_status w1 = (r2, w2)" by (cases "get_node_status w1")
  have n: "w2 = w1\<lparr>requests := requests w1 @ [NODE_STATUS_URL]\<rparr>"
    using 2 by (rule get_node_status_requests)
  from assms 1 2 have "w' = w1 \<or> w' = w2"
    by (auto simp: get_sync_status_def Let_def split: sum.splits prod.splits)
  with get_network_height_requests [OF 1] n show ?thesis by auto
qed

text \<open>
  Claim C3. \<open>get_network_height\<close> requests endpoint A first and returns its height when A
  answers 200 with one, without a request to B. When A fails (it is unreachable, answers
  another status or a malformed body), it requests B and returns B's height when B
  succeeds. When both fail it raises the exception of line 46, the
  \<open>NoReferenceAvailable\<close> of the specification, and so does \<open>get_sync_status\<close>. An
  exception of the network height or of the local node's status is the exception of
  \<open>get_sync_status\<close>, which then returns no metrics and leaves the monitor as it was. No
  call of \<open>get_sync_status\<close> requests an endpoint twice: its requests start with A, are
  distinct, and include B only when A has failed.
\<close>

theorem get_network_height_fallback:
  "(\<forall>data h. http w RPC_ENDPOINT_1 = Response 200 (Inr data) \<and> latest_block_height data = Inr h \<longrightarrow>
      get_network_height w = (Inr h, w\<lparr>requests := requests w @ [RPC_ENDPOINT_1]\<rparr>)) \<and>
   (\<forall>data h. endpoint_fails (http w RPC_ENDPOINT_1) \<and>
      http w RPC_ENDPOINT_2 = Response 200 (Inr data) \<and> latest_block_height data = Inr h \<longrightarrow>
      get_network_height w =
        (Inr h, w\<lparr>requests := requests w @ [RPC_ENDPOINT_1, RPC_ENDPOINT_2]\<rparr>)) \<and>
   (endpoint_fails (http w RPC_ENDPOINT_1) \<and> endpoint_fails (http w RPC_ENDPOINT_2) \<longrightarrow>
      get_network_height w =
        (Inl NoReferenceAvailable,
         w\<lparr>requests := requests w @ [RPC_ENDPOINT_1, RPC_ENDPOINT_2]\<rparr>) \<and>
      get_sync_status self w =
        (Inl NoReferenceAvailable, self,
         w\<lparr>requests := requests w @ [RPC_ENDPOINT_1, RPC_ENDPOINT_2]\<rparr>)) \<and>
   (\<forall>e w1. get_network_height w = (Inl e, w1) \<longrightarrow> get_sync_status self w = (Inl e, self, w1)) \<and>
   (\<forall>n w1 e w2. get_network_height w = (Inr n, w1) \<and> get_node_status w1 = (Inl e, w2) \<longrightarrow>
      get_sync_status self w = (Inl e, self, w2)) \<and>
   (\<forall>r self' w'. get_sync_status self w = (r, self', w') \<longrightarrow>
      (\<exists>rs. w' = w\<lparr>requests := requests w @ rs\<rparr> \<and> distinct rs \<and>
            hd rs = RPC_ENDPOINT_1 \<and>
            (RPC_ENDPOINT_2 \<in> set rs \<longrightarrow> endpoint_fails (http w RPC_ENDPOINT_1))))"
proof -
  have a: "\<forall>data h. http w RPC_ENDPOINT_1 = Response 200 (Inr data) \<and>
      latest_block_height data = Inr h \<longrightarrow>
      get_network_height w = (Inr h, w\<lparr>requests := requests w @ [RPC_ENDPOINT_1]\<rparr>)"
    by (blast intro: get_network_height_first)
  have b: "\<forall>data h. endpoint_fails (http w RPC_ENDPOINT_1) \<and>
      http w RPC_ENDPOINT_2 = Response 200 (Inr data) \<and> latest_block_height data = Inr h \<longrightarrow>
      get_network_height w =
        (Inr h, w\<lparr>requests := requests w @ [RPC_ENDPOINT_1, RPC_ENDPOINT_2]\<rparr>)"
    by (blast intro: get_network_height_second)
  have c: "endpoint_fails (http w RPC_ENDPOINT_1) \<and> endpoint_fails (http w RPC_ENDPOINT_2) \<longrightarrow>
      get_network_height w =
        (Inl NoReferenceAvailable,
         w\<lparr>requests := requests w @ [RPC_ENDPOINT_1, RPC_ENDPOINT_2]\<rparr>) \<and>
      get_sync_status self w =
        (Inl NoReferenceAvailable, self,
         w\<lparr>requests := requests w @ [RPC_ENDPOINT_1, RPC_ENDPOINT_2]\<rparr>)"
    by (simp add: get_network_height_none get_sync_status_def)
  have d: "\<forall>e w1. get_network_height w = (Inl e, w1) \<longrightarrow>
      get_sync_status self w = (Inl e, self, w1)"
    by (simp add: get_sync_status_def)
  have e: "\<forall>n w1 e w2. get_network_height w = (Inr n, w1) \<and> get_node_status w1 = (Inl e, w2) \<longrightarrow>
      get_sync_status self w = (Inl e, self, w2)"
    by (simp add: get_sync_status_def)
  have f: "\<forall>r self' w'. get_sync_status self w = (r, self', w') \<longrightarrow>
      (\<exists>rs. w' = w\<lparr>requests := requests w @ rs\<rparr> \<and> distinct rs \<and>
            hd rs = RPC_ENDPOINT_1 \<and>
            (RPC_ENDPOINT_2 \<in> set rs \<longrightarrow> endpoint_fails (http w RPC_ENDPOINT_1)))"
  proof (intro allI impI)
    fix r self' w' assume g: "get_sync_status self w = (r, self', w')"
    from get_sync_status_requests [OF g] obtain rs
      where rs: "w' = w\<lparr>requests := requests w @ rs\<rparr>"
        "rs \<in> {[RPC_ENDPOINT_1], [RPC_ENDPOINT_1, RPC_ENDPOINT_2],
               [RPC_ENDPOINT_1, NODE_STATUS_URL],
               [RPC_ENDPOINT_1, RPC_ENDPOINT_2, NODE_STATUS_URL]}" by blast
    have "RPC_ENDPOINT_2 \<in> set rs \<longrightarrow> endpoint_fails (http w RPC_ENDPOINT_1)"
    proof (rule impI, rule ccontr)
      assume 2: "RPC_ENDPOINT_2 \<in> set rs" and "\<not> endpoint_fails (http w RPC_ENDPOINT_1)"
      with endpoint_fails_or_succeeds [of "http w RPC_ENDPOINT_1"]
      obtain data h where "http w RPC_ENDPOINT_1 = Response 200 (Inr data)"
        "latest_block_height data = Inr h" by blast
      from get_network_height_first [OF this]
      have nh: "get_network_height w = (Inr h, w\<lparr>requests := requests w @ [RPC_ENDPOINT_1]\<rparr>)" .
      obtain r2 w2
        where n: "get_node_status (w\<lparr>requests := requests w @ [RPC_ENDPOINT_1]\<rparr>) = (r2, w2)"
        by (cases "get_node_status (w\<lparr>requests := requests w @ [RPC_ENDPOINT_1]\<rparr>)")
      from get_node_status_requests [OF n]
      have w2: "w2 = w\<lparr>requests := requests w @ [RPC_ENDPOINT_1, NODE_STATUS_URL]\<rparr>" by simp
      from g nh n have "w' = w\<lparr>requests := requests w @ [RPC_ENDPOINT_1]\<rparr> \<or> w' = w2"
        by (auto simp: get_sync_status_def Let_def split: sum.splits prod.splits)
      with w2 rs(1) have "requests w @ rs = requests w @ [RPC_ENDPOINT_1] \<or>
         requests w @ rs = requests w @ [RPC_ENDPOINT_1, NODE_STATUS_URL]"
        by (metis world.select_convs(6) world.surjective world.update_convs(6))
      with 2 show False by auto
    qed
    with rs show "\<exists>rs. w' = w\<lparr>requests := requests w @ rs\<rparr> \<and> distinct rs \<and>
            hd rs = RPC_ENDPOINT_1 \<and>
            (RPC_ENDPOINT_2 \<in> set rs \<longrightarrow> endpoint_fails (http w RPC_ENDPOINT_1))"
      by (intro exI [of _ rs]) auto
  qed
  from a b c d e f show ?thesis by blast
qed

text \<open>
  Endpoint A unreachable and B at height 2000: the height of B, after one request to
  each. Both at a height: the height of A, after one request. A answering 503 and B
  unreachable: \<open>get_sync_status\<close> raises \<open>NoReferenceAvailable\<close> without a request to the
  local node.
\<close>

theorem get_network_height_fallback_witness:
  "get_network_height
     (world_with (Raises (ClientConnectorError (ascii ''Cannot connect to host'')))
        (Response 200 (Inr (status_at 2000))) (Response 200 (Inr (status_at 1000))) 0) =
   (Inr 2000,
    (world_with (Raises (ClientConnectorError (ascii ''Cannot connect to host'')))
        (Response 200 (Inr (status_at 2000))) (Response 200 (Inr (status_at 1000))) 0)
      \<lparr>requests := [RPC_ENDPOINT_1, RPC_ENDPOINT_2]\<rparr>) \<and>
   get_network_height
     (world_with (Response 200 (Inr (status_at 2000))) (Response 200 (Inr (status_at 3000)))
        (Response 200 (Inr (status_at 1000))) 0) =
   (Inr 2000,
    (world_with (Response 200 (Inr (status_at 2000))) (Response 200 (Inr (status_at 3000)))
        (Response 200 (Inr (status_at 1000))) 0)
      \<lparr>requests := [RPC_ENDPOINT_1]\<rparr>) \<and>
   get_sync_status SyncMonitor_init
     (world_with (Response 503 (Inl (Exception (ascii ''not JSON''))))
        (Raises (ClientConnectorError (ascii ''Cannot connect to host'')))
        (Response 200 (Inr (status_at 1000))) 0) =
   (Inl NoReferenceAvailable, SyncMonitor_init,
    (world_with (Response 503 (Inl (Exception (ascii ''not JSON''))))
        (Raises (ClientConnectorError (ascii ''Cannot connect to host'')))
        (Response 200 (Inr (status_at 1000))) 0)
      \<lparr>requests := [RPC_ENDPOINT_1, RPC_ENDPOINT_2]\<rparr>)"
  using
    get_network_height_fallback [of
      "world_with (Raises (ClientConnectorError (ascii ''Cannot connect to host'')))
        (Response 200 (Inr (status_at 2000))) (Response 200 (Inr (status_at 1000))) 0"
      SyncMonitor_init]
    get_network_height_fallback [of
      "world_with (Response 200 (Inr (status_at 2000))) (Response 200 (Inr (status_at 3000)))
        (Response 200 (Inr (status_at 1000))) 0"
      SyncMonitor_init]
    get_network_height_fallback [of
      "world_with (Response 503 (Inl (Exception (ascii ''not JSON''))))
        (Raises (ClientConnectorError (ascii ''Cannot connect to host'')))
        (Response 200 (Inr (status_at 1000))) 0"
      SyncMonitor_init]
  by (simp add: world_with_def status_at_def)

section \<open>Properties of the monitoring job\<close>

lemma get_sync_status_Inr:
  assumes "get_sync_status self w = (Inr (m, healthy), self', w')"
  shows "\<exists>now c n st. calculate_sync_metrics self now c n st = (Inr m, self')"
  using assms
  by (auto simp: get_sync_status_def Let_def split: sum.splits prod.splits)

text \<open>
  Three polls in worlds where both reference endpoints are at height 2000: the node at
  1000 on a new monitor, the node at 1100 fifty seconds later on a new monitor, and the
  same on the monitor that the first poll has left.
\<close>

lemma get_sync_status_second_fire:
  "get_sync_status SyncMonitor_init
     (world_with (Response 200 (Inr (status_at 2000))) (Response 200 (Inr (status_at 2000)))
        (Response 200 (Inr (status_at 1100))) 50000000) =
   (Inr (\<lparr>m_current_height = 1100, m_network_height = 2000, m_blocks_behind = 900,
           m_sync_percent = 55, m_sync_speed = 0, m_time_remaining = None,
           m_catching_up = True\<rparr>, False),
    \<lparr>last_height = 1100, last_check_time = Some 50000000, sync_speed = 0\<rparr>,
    (world_with (Response 200 (Inr (status_at 2000))) (Response 200 (Inr (status_at 2000)))
        (Response 200 (Inr (status_at 1100))) 50000000)
      \<lparr>requests := [RPC_ENDPOINT_1, NODE_STATUS_URL]\<rparr>)"
  by (simp add: get_sync_status_def get_network_height_def rpc_height_def http_get_def
      get_node_status_def world_with_def status_at_def
      calculate_sync_metrics_def sync_progress_def update_sync_speed_def
      estimate_time_remaining_def SyncMonitor_init_def py_truediv_def py_min_def py_round_def
      round_half_even_def)



text \<open>
  Claim C10. Every fire of the monitoring job computes its metrics on a new
  \<open>SyncMonitor\<close>: whatever the world of the fire is, and so whatever earlier fires have
  done, when the sync status of a new monitor is the metrics \<open>m\<close>, the synchronization
  section of the report is written from \<open>m\<close>, and \<open>m\<close> has \<open>sync_speed = 0\<close> and no
  \<open>time_remaining\<close>.
\<close>

theorem monitoring_report_new_monitor:
  "\<forall>m healthy self' w'.
     get_sync_status SyncMonitor_init w = (Inr (m, healthy), self', w') \<longrightarrow>
       sync_report w = (sync_status_text m, w') \<and>
       m_sync_speed m = 0 \<and> m_time_remaining m = None"
proof (intro allI impI)
  fix m healthy self' w'
  assume g: "get_sync_status SyncMonitor_init w = (Inr (m, healthy), self', w')"
  then have r: "sync_report w = (sync_status_text m, w')"
    by (simp add: sync_report_def)
  from get_sync_status_Inr [OF g] obtain now c n st
    where c: "calculate_sync_metrics SyncMonitor_init now c n st = (Inr m, self')" by blast
  have "update_sync_speed SyncMonitor_init now c = Inr 0"
    by (simp add: update_sync_speed_def SyncMonitor_init_def)
  with calculate_sync_metrics_Inr(2) [OF c] have s: "m_sync_speed m = 0" by simp
  from calculate_sync_metrics_Inr(3) [OF c] s have "m_time_remaining m = None"
    by (simp add: estimate_time_remaining_def)
  with r s show "sync_report w = (sync_status_text m, w') \<and>
       m_sync_speed m = 0 \<and> m_time_remaining m = None" by simp
qed

text \<open>
  The report of a fire fifty seconds after a fire at height 1000, with the node now at
  1100: \<open>sync_speed = 0\<close> and no \<open>time_remaining\<close>.
\<close>

theorem monitoring_report_new_monitor_witness:
  "sync_report
     (world_with (Response 200 (Inr (status_at 2000))) (Response 200 (Inr (status_at 2000)))
        (Response 200 (Inr (status_at 1100))) 50000000) =
   (sync_status_text
      \<lparr>m_current_height = 1100, m_network_height = 2000, m_blocks_behind = 900,
        m_sync_percent = 55, m_sync_speed = 0, m_time_remaining = None,
        m_catching_up = True\<rparr>,
    (world_with (Response 200 (Inr (status_at 2000))) (Response 200 (Inr (status_at 2000)))
        (Response 200 (Inr (status_at 1100))) 50000000)
      \<lparr>requests := [RPC_ENDPOINT_1, NODE_STATUS_URL]\<rparr>)"
  using monitoring_report_new_monitor [rule_format, OF get_sync_status_second_fire]
  by simp


lemma length_ascii: "length (ascii cs) = length cs"
  by (simp add: ascii_def)

lemma bot_send_message_ok:
  "send_raises w (send_calls w) = None \<Longrightarrow>
   bot_send_message w chat_id text =
     (Inr (), w\<lparr>sent := sent w @ [(chat_id, text)], send_calls := send_calls w + 1\<rparr>)"
  by (simp add: bot_send_message_def)

lemma send_report_short:
  "length message \<le> 4096 \<Longrightarrow> send_raises w (send_calls w) = None \<Longrightarrow>
   send_report w chat_id message =
     Some (Inr (), w\<lparr>sent := sent w @ [(chat_id, message)], send_calls := send_calls w + 1\<rparr>)"
  by (simp add: send_report_def bot_send_message_ok)

lemma length_example_head: "length (report_head_text two_services disk_45) = 136"
  by (simp add: report_head_text_def two_services_def disk_45_def disk_status_text_def
      service_status_line_def length_ascii)

lemma sync_report_example:
  "sync_report (world_with (Response 200 (Inr (status_at 2000)))
        (Response 200 (Inr (status_at 2000))) (Response 200 (Inr (status_at 1000))) 0) =
   (sync_status_text
      \<lparr>m_current_height = 1000, m_network_height = 2000, m_blocks_behind = 1000,
        m_sync_percent = 50, m_sync_speed = 0, m_time_remaining = None,
        m_catching_up = True\<rparr>,
    (world_with (Response 200 (Inr (status_at 2000)))
        (Response 200 (Inr (status_at 2000))) (Response 200 (Inr (status_at 1000))) 0)
      \<lparr>requests := [RPC_ENDPOINT_1, NODE_STATUS_URL]\<rparr>)"
  by (simp add: sync_report_def get_sync_status_def get_network_height_def rpc_height_def
      http_get_def get_node_status_def world_with_def status_at_def
      calculate_sync_metrics_def sync_progress_def update_sync_speed_def
      estimate_time_remaining_def SyncMonitor_init_def py_truediv_def py_min_def py_round_def
      round_half_even_def)

lemma length_example_sync:
  "length (sync_status_text
      \<lparr>m_current_height = 1000, m_network_height = 2000, m_blocks_behind = 1000,
        m_sync_percent = 50, m_sync_speed = 0, m_time_remaining = None,
        m_catching_up = True\<rparr>) = 267"
  by (simp add: sync_status_text_def length_ascii str_int_def fmt_2f_def fmt_02d_def
      round_half_even_def)

text \<open>
  Claim C7, as amended. A fire that finds the flag of its chat not set returns at its
  first statement: it requests nothing, sends nothing, raises nothing and leaves the
  world as it was. \<open>deactivate_monitoring\<close> leaves the flag not set, whatever it returns,
  so every fire that starts after it has returned, and before an activation sets the
  flag again, delivers nothing.
\<close>

theorem send_monitoring_update_inactive:
  "(\<not> monitoring_flag (context_chat_data ctx) \<longrightarrow>
      send_monitoring_update_begin ctx w = Returned \<and>
      send_monitoring_update ctx w = Some (Inr (), w)) \<and>
   (\<forall>r cd' q'. deactivate_monitoring cd q c = (r, cd', q') \<longrightarrow>
      \<not> monitoring_flag cd' \<and>
      send_monitoring_update \<lparr>context_job_chat_id = c, context_chat_data = cd'\<rparr> w =
        Some (Inr (), w))"
proof -
  have a: "\<not> monitoring_flag (context_chat_data ctx) \<longrightarrow>
      send_monitoring_update_begin ctx w = Returned \<and>
      send_monitoring_update ctx w = Some (Inr (), w)"
    by (simp add: send_monitoring_update_def send_monitoring_update_begin_def)
  have b: "\<forall>r cd' q'. deactivate_monitoring cd q c = (r, cd', q') \<longrightarrow>
      \<not> monitoring_flag cd' \<and>
      send_monitoring_update \<lparr>context_job_chat_id = c, context_chat_data = cd'\<rparr> w =
        Some (Inr (), w)"
    by (auto simp: deactivate_monitoring_def send_monitoring_update_def
        send_monitoring_update_begin_def Let_def split: if_splits)
  from a b show ?thesis by blast
qed


text \<open>
  Chat 42 deactivated, then a fire of its job.
\<close>

theorem send_monitoring_update_inactive_witness:
  "deactivate_monitoring [ascii ''monitoring'' \<mapsto> True] [job_42] 42 =
     (True, [ascii ''monitoring'' \<mapsto> False], []) \<and>
   send_monitoring_update_begin
     \<lparr>context_job_chat_id = 42, context_chat_data = [ascii ''monitoring'' \<mapsto> False]\<rparr>
     (world_with (Response 200 (Inr (status_at 2000)))
        (Response 200 (Inr (status_at 2000))) (Response 200 (Inr (status_at 1000))) 0) =
     Returned \<and>
   send_monitoring_update
     \<lparr>context_job_chat_id = 42, context_chat_data = [ascii ''monitoring'' \<mapsto> False]\<rparr>
     (world_with (Response 200 (Inr (status_at 2000)))
        (Response 200 (Inr (status_at 2000))) (Response 200 (Inr (status_at 1000))) 0) =
     Some (Inr (), world_with (Response 200 (Inr (status_at 2000)))
        (Response 200 (Inr (status_at 2000))) (Response 200 (Inr (status_at 1000))) 0)"
proof -
  have d: "deactivate_monitoring [ascii ''monitoring'' \<mapsto> True] [job_42] 42 =
     (True, [ascii ''monitoring'' \<mapsto> False], [])"
    by (simp add: deactivate_monitoring_def get_jobs_by_name_def job_42_def
        schedule_removal_def monitoring_flag_def)
  from send_monitoring_update_inactive [of
      "\<lparr>context_job_chat_id = 42, context_chat_data = [ascii ''monitoring'' \<mapsto> False]\<rparr>"
      "world_with (Response 200 (Inr (status_at 2000)))
        (Response 200 (Inr (status_at 2000))) (Response 200 (Inr (status_at 1000))) 0"
      "[ascii ''monitoring'' \<mapsto> True]" "[job_42]" 42] d
  show ?thesis by simp
qed

text \<open>
  A fire in flight. The job of chat 42 starts while the flag is set and waits at line 71;
  \<open>deactivate_monitoring\<close> runs and returns \<open>True\<close>; the job resumes, with the chat data as
  the deactivation has left them, and delivers its report to chat 42.
\<close>

theorem send_monitoring_update_in_flight_counterexample:
  "monitoring_flag [ascii ''monitoring'' \<mapsto> True] \<and>
   send_monitoring_update_begin
     \<lparr>context_job_chat_id = 42, context_chat_data = [ascii ''monitoring'' \<mapsto> True]\<rparr>
     (world_with (Response 200 (Inr (status_at 2000)))
        (Response 200 (Inr (status_at 2000))) (Response 200 (Inr (status_at 1000))) 0) =
     Awaiting (Inr (report_head_text two_services disk_45)) \<and>
   deactivate_monitoring [ascii ''monitoring'' \<mapsto> True] [job_42] 42 =
     (True, [ascii ''monitoring'' \<mapsto> False], []) \<and>
   send_monitoring_update_resume
     \<lparr>context_job_chat_id = 42, context_chat_data = [ascii ''monitoring'' \<mapsto> False]\<rparr>
     (Inr (report_head_text two_services disk_45))
     (world_with (Response 200 (Inr (status_at 2000)))
        (Response 200 (Inr (status_at 2000))) (Response 200 (Inr (status_at 1000))) 0) =
     Some (Inr (),
       (world_with (Response 200 (Inr (status_at 2000)))
          (Response 200 (Inr (status_at 2000))) (Response 200 (Inr (status_at 1000))) 0)
        \<lparr>requests := [RPC_ENDPOINT_1, NODE_STATUS_URL],
          sent := [(42, report_head_text two_services disk_45 @
                        sync_status_text
                          \<lparr>m_current_height = 1000, m_network_height = 2000,
                            m_blocks_behind = 1000, m_sync_percent = 50, m_sync_speed = 0,
                            m_time_remaining = None, m_catching_up = True\<rparr>)],
          send_calls := 1\<rparr>)"
proof -
  let ?w = "world_with (Response 200 (Inr (status_at 2000)))
        (Response 200 (Inr (status_at 2000))) (Response 200 (Inr (status_at 1000))) 0"
  let ?m = "\<lparr>m_current_height = 1000, m_network_height = 2000,
                            m_blocks_behind = 1000, m_sync_percent = 50, m_sync_speed = 0,
                            m_time_remaining = None, m_catching_up = True\<rparr>"
  have f: "monitoring_flag [ascii ''monitoring'' \<mapsto> True]" by (simp add: monitoring_flag_def)
  have b: "send_monitoring_update_begin
     \<lparr>context_job_chat_id = 42, context_chat_data = [ascii ''monitoring'' \<mapsto> True]\<rparr> ?w =
     Awaiting (Inr (report_head_text two_services disk_45))"
    using f by (simp add: send_monitoring_update_begin_def monitoring_report_head_def world_with_def)
  have d: "deactivate_monitoring [ascii ''monitoring'' \<mapsto> True] [job_42] 42 =
     (True, [ascii ''monitoring'' \<mapsto> False], [])"
    using f by (simp add: deactivate_monitoring_def get_jobs_by_name_def job_42_def
        schedule_removal_def)
  have l: "length (report_head_text two_services disk_45 @ sync_status_text ?m) \<le> 4096"
    by (simp add: length_example_head length_example_sync)
  have s: "send_report (?w\<lparr>requests := [RPC_ENDPOINT_1, NODE_STATUS_URL]\<rparr>) 42
      (report_head_text two_services disk_45 @ sync_status_text ?m) =
     Some (Inr (), ?w\<lparr>requests := [RPC_ENDPOINT_1, NODE_STATUS_URL],
          sent := [(42, report_head_text two_services disk_45 @ sync_status_text ?m)],
          send_calls := 1\<rparr>)"
    using send_report_short [OF l, of "?w\<lparr>requests := [RPC_ENDPOINT_1, NODE_STATUS_URL]\<rparr>" 42]
    by (simp add: world_with_def)
  have r: "send_monitoring_update_resume
     \<lparr>context_job_chat_id = 42, context_chat_data = [ascii ''monitoring'' \<mapsto> False]\<rparr>
     (Inr (report_head_text two_services disk_45)) ?w =
     Some (Inr (), ?w\<lparr>requests := [RPC_ENDPOINT_1, NODE_STATUS_URL],
          sent := [(42, report_head_text two_services disk_45 @ sync_status_text ?m)],
          send_calls := 1\<rparr>)"
    by (simp add: send_monitoring_update_resume_def sync_report_example s)
  from f b d r show ?thesis by simp
qed






end
